theory Spec2Isabelle
  imports Main "HOL-Library.Word"
begin

section \<open>TLS set-up from the Windows certificate store\<close>

text \<open>
  A shallow embedding of \<open>setupTLSFromWindowsCertStore\<close>
  (\<open>cmd/containerd/server/server_windows.go\<close>) and of its stub for the other platforms.
  The operating system, the x509 decoder and the certtostore library are outside the
  repository: every call into them is a field of the record \<open>platform\<close>, so each theorem
  holds for whatever these calls answer. Logging is left out; it does not influence the
  returned values.
\<close>

subsection \<open>Data\<close>

type_synonym bytes = "8 word list"
type_synonym oserror = string
type_synonym utf16ptr = "16 word list"
type_synonym Handle = nat

text \<open>\<open>srvconfig.Config\<close>: only \<open>config.GRPC.TCPTLSCName\<close> is read.\<close>

record grpc_config =
  TCPTLSCName :: string

record config =
  GRPC :: "grpc_config"

text \<open>
  \<open>windows.CertContext\<close>: \<open>EncodedCert\<close> with \<open>Length\<close> is the byte view
  \<open>unsafe.Slice(EncodedCert, Length)\<close>, modelled as the list of these bytes;
  \<open>Addr\<close> is the pointer value.
\<close>

record cert_context =
  Addr :: nat
  EncodedCert :: bytes

text \<open>
  \<open>windows.CertChainElement\<close>, \<open>windows.CertSimpleChain\<close> and
  \<open>windows.CertChainContext\<close>. \<open>unsafe.Slice(chains[i].Elements, chains[i].NumElements)\<close>
  and \<open>unsafe.Slice(certChain.Chains, certChain.ChainCount)\<close> are the lists
  \<open>Elements\<close> and \<open>Chains\<close>; \<open>NumElements\<close> and \<open>ChainCount\<close> are their lengths.
\<close>

record chain_element =
  CertContext :: cert_context

record simple_chain =
  Elements :: "chain_element list"

record chain_context =
  ChainAddr :: nat
  Chains :: "simple_chain list"

text \<open>
  A Go \<open>[]byte\<close>. \<open>GoBytes b\<close> is a slice over memory of the Go runtime, as
  \<open>make\<close> followed by \<open>copy\<close> gives it. \<open>StoreBytes c\<close> is
  \<open>unsafe.Slice(c.EncodedCert, c.Length)\<close>: a view of the memory of the certificate
  context \<open>c\<close>, which belongs to the store; no byte is copied. \<open>contents\<close> are the bytes
  read through the slice while the context is alive. \<open>read_slice\<close> is a read after the
  events of a log: once the reference to the context has been released, what a read
  through the view finds is not determined by the program (\<open>None\<close>).
\<close>

datatype byte_slice = GoBytes bytes | StoreBytes cert_context

fun contents :: "byte_slice \<Rightarrow> bytes" where
  "contents (GoBytes b) = b"
| "contents (StoreBytes c) = EncodedCert c"

text \<open>
  \<open>x509.Certificate\<close>: the two fields the function reads. \<open>Raw\<close> is a slice: the
  decoder decides whether it shares the memory of its input.
\<close>

record x509_certificate =
  Raw :: byte_slice
  IssuerCommonName :: string

text \<open>
  \<open>x509.CertPool\<close>: the set of the certificates added to it (\<open>NewCertPool\<close> is empty,
  \<open>AddCert\<close> adds one certificate and does nothing when it is already there).
\<close>

type_synonym cert_pool = "x509_certificate set"

definition NewCertPool :: cert_pool where
  "NewCertPool = {}"

definition AddCert :: "cert_pool \<Rightarrow> x509_certificate \<Rightarrow> cert_pool" where
  "AddCert certPool cert = insert cert certPool"

datatype ClientAuthType =
    NoClientCert
  | RequestClientCert
  | RequireAnyClientCert
  | VerifyClientCertIfGiven
  | RequireAndVerifyClientCert

record tls_certificate =
  PrivateKey :: nat
  Leaf :: x509_certificate
  Certificate :: "byte_slice list"

record tls_config =
  Certificates :: "tls_certificate list"
  ClientCAs :: cert_pool
  ClientAuth :: ClientAuthType

text \<open>\<open>grpc.Creds(credentials.NewTLS(tlsConfig))\<close>.\<close>

datatype server_option = Creds tls_config

text \<open>
  The errors the function returns, one constructor for each \<open>fmt.Errorf\<close> of the source,
  carrying the wrapped error:
  \<^item> \<open>StoreNameEncodingError\<close>: "failed to convert store name to UTF16";
  \<^item> \<open>StoreOpenError\<close>: "failed to open windows certificate store";
  \<^item> \<open>CommonNameEncodingError\<close>: "failed to convert common name to UTF16";
  \<^item> \<open>CertificateNotFoundError\<close>: "failed to find certificate in store" (the wrapped
    error is nil when the lookup gave a nil reference and no error);
  \<^item> \<open>CertificateParseError\<close>: "failed to parse leaf certificate";
  \<^item> \<open>ChainBuildError\<close>: "failed to retrieve certificate chain";
  \<^item> \<open>ChainElementParseError\<close>: "failed to parse certificate from chain";
  \<^item> \<open>KeyStoreOpenError\<close>: "failed to open Windows Certificate Store";
  \<^item> \<open>KeyRetrievalError\<close>: "failed to retrieve private key".
\<close>

datatype error =
    StoreNameEncodingError oserror
  | StoreOpenError oserror
  | CommonNameEncodingError oserror
  | CertificateNotFoundError "oserror option"
  | CertificateParseError oserror
  | ChainBuildError oserror
  | ChainElementParseError oserror
  | KeyStoreOpenError oserror
  | KeyRetrievalError oserror

text \<open>
  The calls that leave the repository. A call that returns \<open>(value, err)\<close> is a sum,
  \<open>Inl\<close> the error. \<open>CertFindCertificateInStore\<close> returns a pointer that may be nil
  also without an error, which is what the second half of the guard
  \<open>err != nil || certContext == nil\<close> tests: \<open>Inr None\<close>.
\<close>

record platform =
  UTF16PtrFromString :: "string \<Rightarrow> oserror + utf16ptr"
  CertOpenStore :: "utf16ptr \<Rightarrow> oserror + Handle"
  CertFindCertificateInStore :: "Handle \<Rightarrow> utf16ptr \<Rightarrow> oserror + cert_context option"
  ParseCertificate :: "byte_slice \<Rightarrow> oserror + x509_certificate"
  CertGetCertificateChain :: "cert_context \<Rightarrow> oserror + chain_context"
  OpenWinCertStore :: "string list \<Rightarrow> oserror + Handle"
  CertKey :: "Handle \<Rightarrow> cert_context \<Rightarrow> oserror + nat"

subsection \<open>Handles and deferred releases\<close>

text \<open>
  The four kinds of handle the function acquires, and the log of what happens to them.
  \<open>Released\<close> stands for the deferred call: \<open>CertCloseStore\<close>,
  \<open>CertFreeCertificateContext\<close>, \<open>CertFreeCertificateChain\<close>, \<open>store.Close\<close>.
\<close>

datatype resource =
    StoreHandle Handle
  | CertificateReference cert_context
  | ChainContext chain_context
  | KeyManagementHandle Handle

datatype event = Acquired resource | Released resource

fun read_slice :: "event list \<Rightarrow> byte_slice \<Rightarrow> bytes option" where
  "read_slice log (GoBytes b) = Some b"
| "read_slice log (StoreBytes c) =
     (if Released (CertificateReference c) \<in> set log then None else Some (EncodedCert c))"

text \<open>
  The state of one call: the log so far and the stack of deferred releases, the latest
  \<open>defer\<close> first. A \<open>return\<close> runs the stack from its top.
\<close>

record frame =
  events :: "event list"
  deferred :: "resource list"

record outcome =
  opts :: "server_option list"
  err :: "error option"
  trace :: "event list"

definition acquired :: "resource \<Rightarrow> frame \<Rightarrow> frame" where
  "acquired r fr = fr\<lparr>events := events fr @ [Acquired r]\<rparr>"

definition defer_release :: "resource \<Rightarrow> frame \<Rightarrow> frame" where
  "defer_release r fr = fr\<lparr>deferred := r # deferred fr\<rparr>"

definition return_with :: "frame \<Rightarrow> server_option list \<Rightarrow> error option \<Rightarrow> outcome" where
  "return_with fr os e =
     \<lparr>opts = os, err = e, trace = events fr @ map Released (deferred fr)\<rparr>"

subsection \<open>The loop over the chains\<close>

text \<open>
  The inner loop, lines 109 to 123: \<open>for j := 0; j < NumElements; j++\<close> over the
  elements of chain \<open>i\<close>. \<open>certBytes\<close> is a copy (\<open>make\<close>, \<open>copy\<close>) of the
  element's bytes. A \<open>return nil, err\<close> inside the loop is \<open>Inl\<close>.
\<close>

function elements_loop ::
  "platform \<Rightarrow> nat \<Rightarrow> chain_element list \<Rightarrow> nat \<Rightarrow> byte_slice list \<times> cert_pool
     \<Rightarrow> error + byte_slice list \<times> cert_pool" where
  "elements_loop P i elements j (certChainBytes, certPool) =
     (if j < length elements then
        if i = 0 \<and> j = 0 then
          elements_loop P i elements (j + 1) (certChainBytes, certPool)
        else
          let lcertContext = CertContext (elements ! j);
              certBytes = GoBytes (EncodedCert lcertContext);
              certChainBytes' = certChainBytes @ [certBytes]
          in case ParseCertificate P certBytes of
               Inl e \<Rightarrow> Inl (ChainElementParseError e)
             | Inr cert \<Rightarrow>
                 elements_loop P i elements (j + 1) (certChainBytes', AddCert certPool cert)
      else Inr (certChainBytes, certPool))"
  by pat_completeness auto
termination
  by (relation "measure (\<lambda>(P, i, elements, j, acc). length elements - j)") auto

text \<open>
  The outer loop, lines 107 to 124: \<open>for i := 0; i < ChainCount; i++\<close>; \<open>chs\<close> is
  the slice \<open>chains\<close>.
\<close>

function chains_loop ::
  "platform \<Rightarrow> simple_chain list \<Rightarrow> nat \<Rightarrow> byte_slice list \<times> cert_pool
     \<Rightarrow> error + byte_slice list \<times> cert_pool" where
  "chains_loop P chs i acc =
     (if i < length chs then
        case elements_loop P i (Elements (chs ! i)) 0 acc of
          Inl e \<Rightarrow> Inl e
        | Inr acc' \<Rightarrow> chains_loop P chs (i + 1) acc'
      else Inr acc)"
  by pat_completeness auto
termination
  by (relation "measure (\<lambda>(P, chs, i, acc). length chs - i)") auto

subsection \<open>The function\<close>

definition setupTLSFromWindowsCertStore :: "platform \<Rightarrow> config \<Rightarrow> outcome" where
  "setupTLSFromWindowsCertStore P config =
    (let tcpServerOpts = [];
         fr0 = \<lparr>events = [], deferred = []\<rparr>
     in
     case UTF16PtrFromString P ''My'' of
       Inl e \<Rightarrow> return_with fr0 [] (Some (StoreNameEncodingError e))
     | Inr storeName \<Rightarrow>
     (case CertOpenStore P storeName of
       Inl e \<Rightarrow> return_with fr0 [] (Some (StoreOpenError e))
     | Inr winStore \<Rightarrow>
     (let fr1 = defer_release (StoreHandle winStore) (acquired (StoreHandle winStore) fr0)
      in
      case UTF16PtrFromString P (TCPTLSCName (GRPC config)) of
       Inl e \<Rightarrow> return_with fr1 [] (Some (CommonNameEncodingError e))
     | Inr commonName \<Rightarrow>
     (case CertFindCertificateInStore P winStore commonName of
       Inl e \<Rightarrow> return_with fr1 [] (Some (CertificateNotFoundError (Some e)))
     | Inr None \<Rightarrow> return_with fr1 [] (Some (CertificateNotFoundError None))
     | Inr (Some certContext) \<Rightarrow>
     (let fr2 = defer_release (CertificateReference certContext)
                  (acquired (CertificateReference certContext) fr1);
          certDER = StoreBytes certContext
      in
      case ParseCertificate P certDER of
       Inl e \<Rightarrow> return_with fr2 [] (Some (CertificateParseError e))
     | Inr leafCert \<Rightarrow>
     (case CertGetCertificateChain P certContext of
       Inl e \<Rightarrow> return_with fr2 [] (Some (ChainBuildError e))
     | Inr certChain \<Rightarrow>
     (let fr3 = defer_release (ChainContext certChain) (acquired (ChainContext certChain) fr2);
          certPool = NewCertPool;
          chains = Chains certChain
      in
      case chains_loop P chains 0 ([], certPool) of
       Inl e \<Rightarrow> return_with fr3 [] (Some e)
     | Inr (certChainBytes, certPool) \<Rightarrow>
     (case OpenWinCertStore P [IssuerCommonName leafCert] of
       Inl e \<Rightarrow> return_with fr3 [] (Some (KeyStoreOpenError e))
     | Inr store \<Rightarrow>
     (let fr4 = defer_release (KeyManagementHandle store) (acquired (KeyManagementHandle store) fr3)
      in
      case CertKey P store certContext of
       Inl e \<Rightarrow> return_with fr4 [] (Some (KeyRetrievalError e))
     | Inr key \<Rightarrow>
     (let tlsCert = \<lparr>PrivateKey = key, Leaf = leafCert,
                     Certificate = [Raw leafCert] @ certChainBytes\<rparr>;
          tlsConfig = \<lparr>Certificates = [tlsCert], ClientCAs = certPool,
                       ClientAuth = NoClientCert\<rparr>;
          tlsConfig = (if length certChainBytes > 0
                       then tlsConfig\<lparr>ClientAuth := RequireAndVerifyClientCert\<rparr>
                       else tlsConfig);
          tcpServerOpts = tcpServerOpts @ [Creds tlsConfig]
      in return_with fr4 tcpServerOpts None))))))))))"

text \<open>
  The function of the same name built on the other platforms (\<open>return nil, nil\<close>):
  a nil slice is the empty list, a nil error is \<open>None\<close>.
\<close>

definition setupTLSFromWindowsCertStore_noop ::
  "config \<Rightarrow> server_option list \<times> error option" where
  "setupTLSFromWindowsCertStore_noop config = ([], None)"

subsection \<open>What the loop is meant to do\<close>

text \<open>
  The elements the specification has the loop work on: every element of every chain, in
  the order met, except the one at chain index 0, element index 0.
\<close>

definition non_leaf_elements :: "simple_chain list \<Rightarrow> chain_element list" where
  "non_leaf_elements chs =
     [Elements (chs ! i) ! j.
        i \<leftarrow> [0..<length chs], j \<leftarrow> [0..<length (Elements (chs ! i))],
        \<not> (i = 0 \<and> j = 0)]"

definition element_bytes :: "chain_element \<Rightarrow> byte_slice" where
  "element_bytes el = GoBytes (EncodedCert (CertContext el))"

definition decodes :: "platform \<Rightarrow> chain_element \<Rightarrow> bool" where
  "decodes P el = (\<not> isl (ParseCertificate P (element_bytes el)))"

definition element_cert :: "platform \<Rightarrow> chain_element \<Rightarrow> x509_certificate" where
  "element_cert P el = projr (ParseCertificate P (element_bytes el))"

text \<open>
  The specification's step for one element after the other: copy the bytes, append them
  to the Chain Byte Pool, decode them, add the certificate to the Certificate Pool; a
  decoding failure ends everything.
\<close>

fun process_elements ::
  "platform \<Rightarrow> chain_element list \<Rightarrow> byte_slice list \<times> cert_pool
     \<Rightarrow> error + byte_slice list \<times> cert_pool" where
  "process_elements P [] acc = Inr acc"
| "process_elements P (el # els) (certChainBytes, certPool) =
     (case ParseCertificate P (GoBytes (EncodedCert (CertContext el))) of
        Inl e \<Rightarrow> Inl (ChainElementParseError e)
      | Inr cert \<Rightarrow>
          process_elements P els
            (certChainBytes @ [GoBytes (EncodedCert (CertContext el))], AddCert certPool cert))"

subsection \<open>What a run is meant to give\<close>

text \<open>
  Every call of a run succeeds, with these results: the run reaches the assembly of the
  configuration.
\<close>

definition stages_succeed ::
  "platform \<Rightarrow> config \<Rightarrow> utf16ptr \<Rightarrow> Handle \<Rightarrow> utf16ptr \<Rightarrow> cert_context \<Rightarrow> x509_certificate
     \<Rightarrow> chain_context \<Rightarrow> byte_slice list \<Rightarrow> cert_pool \<Rightarrow> Handle \<Rightarrow> nat \<Rightarrow> bool" where
  "stages_succeed P config storeName winStore commonName certContext leafCert certChain
       certChainBytes certPool store key =
     (UTF16PtrFromString P ''My'' = Inr storeName \<and>
      CertOpenStore P storeName = Inr winStore \<and>
      UTF16PtrFromString P (TCPTLSCName (GRPC config)) = Inr commonName \<and>
      CertFindCertificateInStore P winStore commonName = Inr (Some certContext) \<and>
      ParseCertificate P (StoreBytes certContext) = Inr leafCert \<and>
      CertGetCertificateChain P certContext = Inr certChain \<and>
      chains_loop P (Chains certChain) 0 ([], NewCertPool) = Inr (certChainBytes, certPool) \<and>
      OpenWinCertStore P [IssuerCommonName leafCert] = Inr store \<and>
      CertKey P store certContext = Inr key)"

text \<open>
  The handles the platform hands out to a run, in the order of the calls that return
  them: the store handle, the certificate reference, the chain context and the
  key-management handle, each when the calls up to it have succeeded.
\<close>

definition handles_acquired :: "platform \<Rightarrow> config \<Rightarrow> resource list" where
  "handles_acquired P config =
     (case UTF16PtrFromString P ''My'' of
        Inl e \<Rightarrow> []
      | Inr storeName \<Rightarrow>
     (case CertOpenStore P storeName of
        Inl e \<Rightarrow> []
      | Inr winStore \<Rightarrow>
          StoreHandle winStore #
     (case UTF16PtrFromString P (TCPTLSCName (GRPC config)) of
        Inl e \<Rightarrow> []
      | Inr commonName \<Rightarrow>
     (case CertFindCertificateInStore P winStore commonName of
        Inl e \<Rightarrow> []
      | Inr None \<Rightarrow> []
      | Inr (Some certContext) \<Rightarrow>
          CertificateReference certContext #
     (case ParseCertificate P (StoreBytes certContext) of
        Inl e \<Rightarrow> []
      | Inr leafCert \<Rightarrow>
     (case CertGetCertificateChain P certContext of
        Inl e \<Rightarrow> []
      | Inr certChain \<Rightarrow>
          ChainContext certChain #
     (case chains_loop P (Chains certChain) 0 ([], NewCertPool) of
        Inl e \<Rightarrow> []
      | Inr r \<Rightarrow>
     (case OpenWinCertStore P [IssuerCommonName leafCert] of
        Inl e \<Rightarrow> []
      | Inr store \<Rightarrow> [KeyManagementHandle store]))))))))"

subsection \<open>Example stores\<close>

definition utf16 :: "string \<Rightarrow> utf16ptr" where
  "utf16 s = map (\<lambda>c. of_nat (of_char c)) s"

definition leaf_context :: cert_context where
  "leaf_context = \<lparr>Addr = 100, EncodedCert = [48, 1]\<rparr>"

definition intermediate_context :: cert_context where
  "intermediate_context = \<lparr>Addr = 200, EncodedCert = [48, 2]\<rparr>"

definition root_context :: cert_context where
  "root_context = \<lparr>Addr = 300, EncodedCert = [48, 3]\<rparr>"

definition malformed_context :: cert_context where
  "malformed_context = \<lparr>Addr = 400, EncodedCert = []\<rparr>"

text \<open>A decoder that, as Go's does, keeps its input slice as \<open>Raw\<close>.\<close>

definition example_parse :: "byte_slice \<Rightarrow> oserror + x509_certificate" where
  "example_parse der =
     (if contents der = [] then Inl ''x509: malformed certificate''
      else Inr \<lparr>Raw = der, IssuerCommonName = ''Example CA''\<rparr>)"

text \<open>
  A store in which every call succeeds: the lookup gives \<open>leaf_context\<close> and chain
  building gives the chains \<open>chs\<close>.
\<close>

definition example_platform :: "simple_chain list \<Rightarrow> platform" where
  "example_platform chs =
     \<lparr>UTF16PtrFromString = (\<lambda>s. Inr (utf16 s)),
      CertOpenStore = (\<lambda>name. Inr 1),
      CertFindCertificateInStore = (\<lambda>h name. Inr (Some leaf_context)),
      ParseCertificate = example_parse,
      CertGetCertificateChain = (\<lambda>c. Inr \<lparr>ChainAddr = 500, Chains = chs\<rparr>),
      OpenWinCertStore = (\<lambda>issuers. Inr 2),
      CertKey = (\<lambda>store c. Inr 7)\<rparr>"

definition example_config :: config where
  "example_config = \<lparr>GRPC = \<lparr>TCPTLSCName = ''svc.example''\<rparr>\<rparr>"

text \<open>One chain, the leaf and one intermediate certificate.\<close>

definition single_chain :: "simple_chain list" where
  "single_chain =
     [\<lparr>Elements = [\<lparr>CertContext = leaf_context\<rparr>, \<lparr>CertContext = intermediate_context\<rparr>]\<rparr>]"

text \<open>One chain with the leaf alone.\<close>

definition leaf_only_chain :: "simple_chain list" where
  "leaf_only_chain = [\<lparr>Elements = [\<lparr>CertContext = leaf_context\<rparr>]\<rparr>]"

text \<open>Two trust paths from the same leaf, to two roots.\<close>

definition two_chains :: "simple_chain list" where
  "two_chains =
     [\<lparr>Elements = [\<lparr>CertContext = leaf_context\<rparr>, \<lparr>CertContext = intermediate_context\<rparr>]\<rparr>,
      \<lparr>Elements = [\<lparr>CertContext = leaf_context\<rparr>, \<lparr>CertContext = root_context\<rparr>]\<rparr>]"

text \<open>One chain whose second element does not decode.\<close>

definition broken_chain :: "simple_chain list" where
  "broken_chain =
     [\<lparr>Elements = [\<lparr>CertContext = leaf_context\<rparr>, \<lparr>CertContext = malformed_context\<rparr>]\<rparr>]"

text \<open>A store with no matching certificate, and a lookup that gives nil and no error.\<close>

definition no_match_platform :: platform where
  "no_match_platform =
     (example_platform [])
       \<lparr>CertFindCertificateInStore := (\<lambda>h name. Inl ''Cannot find object or property.'')\<rparr>"

definition nil_lookup_platform :: platform where
  "nil_lookup_platform =
     (example_platform [])\<lparr>CertFindCertificateInStore := (\<lambda>h name. Inr None)\<rparr>"

section \<open>Properties\<close>

subsection \<open>The loop\<close>

declare elements_loop.simps [simp del] chains_loop.simps [simp del]

lemma elements_loop_process:
  "elements_loop P i els j acc =
     process_elements P [els ! k. k \<leftarrow> [j..<length els], \<not> (i = 0 \<and> k = 0)] acc"
proof (induction P i els j acc rule: elements_loop.induct)
  case (1 P i elements j certChainBytes certPool)
  show ?case
  proof (cases "j < length elements")
    case False
    then show ?thesis by (simp add: elements_loop.simps)
  next
    case True
    then have upt: "[j..<length elements] = j # [Suc j..<length elements]"
      by (simp add: upt_conv_Cons)
    show ?thesis
    proof (cases "i = 0 \<and> j = 0")
      case True
      with \<open>j < length elements\<close> 1(1) upt show ?thesis
        by (subst elements_loop.simps) simp
    next
      case False
      with \<open>j < length elements\<close> 1(2) upt show ?thesis
        by (subst elements_loop.simps) (auto simp: Let_def split: sum.splits)
    qed
  qed
qed

lemma process_elements_append:
  "process_elements P (xs @ ys) acc =
     (case process_elements P xs acc of
        Inl e \<Rightarrow> Inl e
      | Inr acc' \<Rightarrow> process_elements P ys acc')"
proof (induction xs arbitrary: acc)
  case Nil
  then show ?case by simp
next
  case (Cons x xs)
  then show ?case by (cases acc) (simp split: sum.splits)
qed

lemma chains_loop_process:
  "chains_loop P chs i acc =
     process_elements P
       [Elements (chs ! k) ! j.
          k \<leftarrow> [i..<length chs], j \<leftarrow> [0..<length (Elements (chs ! k))],
          \<not> (k = 0 \<and> j = 0)] acc"
proof (induction P chs i acc rule: chains_loop.induct)
  case (1 P chs i acc)
  show ?case
  proof (cases "i < length chs")
    case False
    then show ?thesis by (simp add: chains_loop.simps)
  next
    case True
    then have upt: "[i..<length chs] = i # [Suc i..<length chs]"
      by (simp add: upt_conv_Cons)
    show ?thesis
      using True 1 upt
      by (subst chains_loop.simps)
         (simp add: elements_loop_process process_elements_append split: sum.splits)
  qed
qed

lemma chains_loop_non_leaf:
  "chains_loop P chs 0 acc = process_elements P (non_leaf_elements chs) acc"
  by (simp add: chains_loop_process non_leaf_elements_def)

lemma process_elements_Inr_iff:
  "process_elements P els (bs, pool) = Inr (bs', pool') \<longleftrightarrow>
     (\<forall>el\<in>set els. decodes P el) \<and> bs' = bs @ map element_bytes els \<and>
     pool' = pool \<union> element_cert P ` set els"
proof (induction els arbitrary: bs pool)
  case Nil
  then show ?case by auto
next
  case (Cons el els)
  show ?case
  proof (cases "ParseCertificate P (GoBytes (EncodedCert (CertContext el)))")
    case (Inl e)
    then show ?thesis by (simp add: decodes_def element_bytes_def)
  next
    case (Inr cert)
    then show ?thesis
      using Cons.IH [of "bs @ [GoBytes (EncodedCert (CertContext el))]" "AddCert pool cert"]
      by (auto simp: decodes_def element_bytes_def element_cert_def AddCert_def)
  qed
qed

lemma process_elements_Inl:
  "process_elements P els acc = Inl x \<Longrightarrow>
     \<exists>el\<in>set els. \<exists>e. ParseCertificate P (element_bytes el) = Inl e \<and>
        x = ChainElementParseError e"
proof (induction els arbitrary: acc)
  case Nil
  then show ?case by simp
next
  case (Cons el els)
  then show ?case
    by (cases acc) (auto simp: element_bytes_def split: sum.splits)
qed

lemma process_elements_fails:
  assumes "el \<in> set els" and "\<not> decodes P el"
  shows "\<exists>e. process_elements P els acc = Inl (ChainElementParseError e)"
proof (cases "process_elements P els acc")
  case (Inl x)
  then show ?thesis using process_elements_Inl [OF Inl] by auto
next
  case (Inr r)
  then show ?thesis
    using assms process_elements_Inr_iff [of P els "fst acc" "snd acc" "fst r" "snd r"]
    by auto
qed

subsection \<open>The runs of the function\<close>

lemmas frame_defs = return_with_def acquired_def defer_release_def

lemma setup_success:
  assumes "err (setupTLSFromWindowsCertStore P config) = None"
  shows "\<exists>storeName winStore commonName certContext leafCert certChain certChainBytes certPool
           store key.
      stages_succeed P config storeName winStore commonName certContext leafCert certChain
        certChainBytes certPool store key \<and>
      opts (setupTLSFromWindowsCertStore P config) =
        [Creds \<lparr>Certificates =
                  [\<lparr>PrivateKey = key, Leaf = leafCert,
                    Certificate = Raw leafCert # certChainBytes\<rparr>],
                ClientCAs = certPool,
                ClientAuth = (if certChainBytes = [] then NoClientCert
                              else RequireAndVerifyClientCert)\<rparr>] \<and>
      trace (setupTLSFromWindowsCertStore P config) =
        [Acquired (StoreHandle winStore), Acquired (CertificateReference certContext),
         Acquired (ChainContext certChain), Acquired (KeyManagementHandle store),
         Released (KeyManagementHandle store), Released (ChainContext certChain),
         Released (CertificateReference certContext), Released (StoreHandle winStore)]"
  using assms unfolding stages_succeed_def
  by (auto simp: setupTLSFromWindowsCertStore_def Let_def frame_defs
           split: sum.splits option.splits prod.splits)

text \<open>
  The slice the leaf is decoded from is a view of the looked-up context. When a
  successful run returns, the deferred release of that context has run: the bytes read
  through the view afterwards are not determined by the program. A decoder that keeps
  its input as \<open>Raw\<close> therefore hands such a view to the caller, as the leaf's
  \<open>Raw\<close> and as the first entry of the identity's byte list.
\<close>

lemma returned_leaf_view_is_released:
  assumes "err (setupTLSFromWindowsCertStore P config) = None"
  shows "\<exists>storeName winStore commonName certContext.
      UTF16PtrFromString P ''My'' = Inr storeName \<and>
      CertOpenStore P storeName = Inr winStore \<and>
      UTF16PtrFromString P (TCPTLSCName (GRPC config)) = Inr commonName \<and>
      CertFindCertificateInStore P winStore commonName = Inr (Some certContext) \<and>
      read_slice (trace (setupTLSFromWindowsCertStore P config)) (StoreBytes certContext) = None"
proof -
  from setup_success [OF assms, unfolded stages_succeed_def]
  obtain storeName winStore commonName certContext certChain store
    where "UTF16PtrFromString P ''My'' = Inr storeName"
      "CertOpenStore P storeName = Inr winStore"
      "UTF16PtrFromString P (TCPTLSCName (GRPC config)) = Inr commonName"
      "CertFindCertificateInStore P winStore commonName = Inr (Some certContext)"
      "trace (setupTLSFromWindowsCertStore P config) =
        [Acquired (StoreHandle winStore), Acquired (CertificateReference certContext),
         Acquired (ChainContext certChain), Acquired (KeyManagementHandle store),
         Released (KeyManagementHandle store), Released (ChainContext certChain),
         Released (CertificateReference certContext), Released (StoreHandle winStore)]"
    by blast
  then show ?thesis by simp
qed

subsection \<open>The example stores, evaluated\<close>

lemmas example_defs =
  example_platform_def example_config_def example_parse_def leaf_context_def
  intermediate_context_def root_context_def malformed_context_def NewCertPool_def
  AddCert_def

lemma non_leaf_single_chain:
  "non_leaf_elements single_chain = [\<lparr>CertContext = intermediate_context\<rparr>]"
  by (simp add: non_leaf_elements_def single_chain_def)

lemma non_leaf_leaf_only_chain: "non_leaf_elements leaf_only_chain = []"
  by (simp add: non_leaf_elements_def leaf_only_chain_def)

lemma non_leaf_two_chains:
  "non_leaf_elements two_chains =
     [\<lparr>CertContext = intermediate_context\<rparr>, \<lparr>CertContext = leaf_context\<rparr>,
      \<lparr>CertContext = root_context\<rparr>]"
  by (simp add: non_leaf_elements_def two_chains_def)

lemma non_leaf_broken_chain:
  "non_leaf_elements broken_chain = [\<lparr>CertContext = malformed_context\<rparr>]"
  by (simp add: non_leaf_elements_def broken_chain_def)

lemma run_single_chain:
  "setupTLSFromWindowsCertStore (example_platform single_chain) example_config =
     \<lparr>opts = [Creds \<lparr>Certificates =
                       [\<lparr>PrivateKey = 7,
                         Leaf = \<lparr>Raw = StoreBytes leaf_context, IssuerCommonName = ''Example CA''\<rparr>,
                         Certificate = [StoreBytes leaf_context, GoBytes [48, 2]]\<rparr>],
                     ClientCAs = {\<lparr>Raw = GoBytes [48, 2], IssuerCommonName = ''Example CA''\<rparr>},
                     ClientAuth = RequireAndVerifyClientCert\<rparr>],
      err = None,
      trace = [Acquired (StoreHandle 1), Acquired (CertificateReference leaf_context),
               Acquired (ChainContext \<lparr>ChainAddr = 500, Chains = single_chain\<rparr>),
               Acquired (KeyManagementHandle 2), Released (KeyManagementHandle 2),
               Released (ChainContext \<lparr>ChainAddr = 500, Chains = single_chain\<rparr>),
               Released (CertificateReference leaf_context), Released (StoreHandle 1)]\<rparr>"
  by (simp add: setupTLSFromWindowsCertStore_def Let_def frame_defs chains_loop_non_leaf
        non_leaf_single_chain example_defs)

lemma run_leaf_only_chain:
  "setupTLSFromWindowsCertStore (example_platform leaf_only_chain) example_config =
     \<lparr>opts = [Creds \<lparr>Certificates =
                       [\<lparr>PrivateKey = 7,
                         Leaf = \<lparr>Raw = StoreBytes leaf_context, IssuerCommonName = ''Example CA''\<rparr>,
                         Certificate = [StoreBytes leaf_context]\<rparr>],
                     ClientCAs = {},
                     ClientAuth = NoClientCert\<rparr>],
      err = None,
      trace = [Acquired (StoreHandle 1), Acquired (CertificateReference leaf_context),
               Acquired (ChainContext \<lparr>ChainAddr = 500, Chains = leaf_only_chain\<rparr>),
               Acquired (KeyManagementHandle 2), Released (KeyManagementHandle 2),
               Released (ChainContext \<lparr>ChainAddr = 500, Chains = leaf_only_chain\<rparr>),
               Released (CertificateReference leaf_context), Released (StoreHandle 1)]\<rparr>"
  by (simp add: setupTLSFromWindowsCertStore_def Let_def frame_defs chains_loop_non_leaf
        non_leaf_leaf_only_chain example_defs)

lemma run_two_chains:
  "setupTLSFromWindowsCertStore (example_platform two_chains) example_config =
     \<lparr>opts = [Creds \<lparr>Certificates =
                       [\<lparr>PrivateKey = 7,
                         Leaf = \<lparr>Raw = StoreBytes leaf_context, IssuerCommonName = ''Example CA''\<rparr>,
                         Certificate =
                           [StoreBytes leaf_context, GoBytes [48, 2], GoBytes [48, 1],
                            GoBytes [48, 3]]\<rparr>],
                     ClientCAs = {\<lparr>Raw = GoBytes [48, 1], IssuerCommonName = ''Example CA''\<rparr>,
                                  \<lparr>Raw = GoBytes [48, 2], IssuerCommonName = ''Example CA''\<rparr>,
                                  \<lparr>Raw = GoBytes [48, 3], IssuerCommonName = ''Example CA''\<rparr>},
                     ClientAuth = RequireAndVerifyClientCert\<rparr>],
      err = None,
      trace = [Acquired (StoreHandle 1), Acquired (CertificateReference leaf_context),
               Acquired (ChainContext \<lparr>ChainAddr = 500, Chains = two_chains\<rparr>),
               Acquired (KeyManagementHandle 2), Released (KeyManagementHandle 2),
               Released (ChainContext \<lparr>ChainAddr = 500, Chains = two_chains\<rparr>),
               Released (CertificateReference leaf_context), Released (StoreHandle 1)]\<rparr>"
  by (auto simp: setupTLSFromWindowsCertStore_def Let_def frame_defs chains_loop_non_leaf
        non_leaf_two_chains example_defs)

subsection \<open>Failing and succeeding runs\<close>

lemma setup_complete:
  assumes "stages_succeed P config storeName winStore commonName certContext leafCert certChain
             certChainBytes certPool store key"
  shows "setupTLSFromWindowsCertStore P config =
     \<lparr>opts = [Creds \<lparr>Certificates =
                  [\<lparr>PrivateKey = key, Leaf = leafCert,
                    Certificate = Raw leafCert # certChainBytes\<rparr>],
                ClientCAs = certPool,
                ClientAuth = (if certChainBytes = [] then NoClientCert
                              else RequireAndVerifyClientCert)\<rparr>],
      err = None,
      trace =
        [Acquired (StoreHandle winStore), Acquired (CertificateReference certContext),
         Acquired (ChainContext certChain), Acquired (KeyManagementHandle store),
         Released (KeyManagementHandle store), Released (ChainContext certChain),
         Released (CertificateReference certContext), Released (StoreHandle winStore)]\<rparr>"
  using assms unfolding stages_succeed_def
  by (simp add: setupTLSFromWindowsCertStore_def Let_def frame_defs)

lemma setup_two_way:
  "(err (setupTLSFromWindowsCertStore P config) = None \<and>
      (\<exists>tlsConfig tlsCert.
         opts (setupTLSFromWindowsCertStore P config) = [Creds tlsConfig] \<and>
         Certificates tlsConfig = [tlsCert])) \<or>
   (err (setupTLSFromWindowsCertStore P config) \<noteq> None \<and>
      opts (setupTLSFromWindowsCertStore P config) = [])"
  by (auto simp: setupTLSFromWindowsCertStore_def Let_def frame_defs
           split: sum.splits option.splits prod.splits)

lemma setup_no_reference:
  assumes "UTF16PtrFromString P ''My'' = Inr storeName"
    and "CertOpenStore P storeName = Inr winStore"
    and "UTF16PtrFromString P (TCPTLSCName (GRPC config)) = Inr commonName"
    and "\<forall>certContext.
           CertFindCertificateInStore P winStore commonName \<noteq> Inr (Some certContext)"
  shows "setupTLSFromWindowsCertStore P config =
           \<lparr>opts = [],
            err = Some (CertificateNotFoundError
                          (case CertFindCertificateInStore P winStore commonName of
                             Inl e \<Rightarrow> Some e | Inr r \<Rightarrow> None)),
            trace = [Acquired (StoreHandle winStore), Released (StoreHandle winStore)]\<rparr>"
  using assms
  by (auto simp: setupTLSFromWindowsCertStore_def Let_def frame_defs
           split: sum.splits option.splits)

section \<open>The claims\<close>

text \<open>
  C1. Claimed: whenever chain resolution returns one or more chains, the raw bytes of
  the leaf certificate are not in the Certificate Pool and occur only at the first
  position of the identity's byte list, also when there is more than one chain. The loop
  skips only the element at chain 0, index 0: run on a chain context with two chains that
  both start at the leaf, the leaf of the second chain is added to the pool and occurs a
  second time in the byte list.
\<close>

theorem leaf_of_second_chain_is_pooled:
  "err (setupTLSFromWindowsCertStore (example_platform two_chains) example_config) = None \<and>
   (\<exists>tlsConfig tlsCert.
      opts (setupTLSFromWindowsCertStore (example_platform two_chains) example_config) =
        [Creds tlsConfig] \<and>
      Certificates tlsConfig = [tlsCert] \<and>
      map contents (Certificate tlsCert) = [[48, 1], [48, 2], [48, 1], [48, 3]] \<and>
      contents (Raw (Leaf tlsCert)) = [48, 1] \<and>
      contents (Raw (Leaf tlsCert)) \<in> (\<lambda>cert. contents (Raw cert)) ` ClientCAs tlsConfig \<and>
      contents (Raw (Leaf tlsCert)) \<in> contents ` set (tl (Certificate tlsCert)))"
  by (simp add: run_two_chains leaf_context_def)

text \<open>
  C2. On every successful run, the returned configuration requires and verifies client
  certificates exactly when the Chain Byte Pool (the \<open>certChainBytes\<close> the loop
  returned) is not empty; when it is empty, \<open>ClientAuth\<close> keeps its zero value
  \<open>NoClientCert\<close>.
\<close>

theorem client_auth_iff_chain_bytes:
  assumes "err (setupTLSFromWindowsCertStore P config) = None"
  shows "\<exists>storeName winStore commonName certContext certChain certChainBytes certPool
           tlsConfig.
      UTF16PtrFromString P ''My'' = Inr storeName \<and>
      CertOpenStore P storeName = Inr winStore \<and>
      UTF16PtrFromString P (TCPTLSCName (GRPC config)) = Inr commonName \<and>
      CertFindCertificateInStore P winStore commonName = Inr (Some certContext) \<and>
      CertGetCertificateChain P certContext = Inr certChain \<and>
      chains_loop P (Chains certChain) 0 ([], NewCertPool) = Inr (certChainBytes, certPool) \<and>
      opts (setupTLSFromWindowsCertStore P config) = [Creds tlsConfig] \<and>
      (ClientAuth tlsConfig = RequireAndVerifyClientCert \<longleftrightarrow> certChainBytes \<noteq> []) \<and>
      (certChainBytes = [] \<longrightarrow> ClientAuth tlsConfig = NoClientCert)"
proof -
  from setup_success [OF assms, unfolded stages_succeed_def]
  obtain storeName winStore commonName certContext leafCert certChain certChainBytes certPool
    key
    where stages:
      "UTF16PtrFromString P ''My'' = Inr storeName"
      "CertOpenStore P storeName = Inr winStore"
      "UTF16PtrFromString P (TCPTLSCName (GRPC config)) = Inr commonName"
      "CertFindCertificateInStore P winStore commonName = Inr (Some certContext)"
      "CertGetCertificateChain P certContext = Inr certChain"
      "chains_loop P (Chains certChain) 0 ([], NewCertPool) = Inr (certChainBytes, certPool)"
    and out: "opts (setupTLSFromWindowsCertStore P config) =
        [Creds \<lparr>Certificates =
                  [\<lparr>PrivateKey = key, Leaf = leafCert,
                    Certificate = Raw leafCert # certChainBytes\<rparr>],
                ClientCAs = certPool,
                ClientAuth = (if certChainBytes = [] then NoClientCert
                              else RequireAndVerifyClientCert)\<rparr>]"
    by blast
  from stages out show ?thesis by simp
qed

theorem client_auth_iff_chain_bytes_witness:
  "err (setupTLSFromWindowsCertStore (example_platform leaf_only_chain) example_config) = None \<and>
   (\<exists>storeName winStore commonName certContext certChain certChainBytes certPool tlsConfig.
      UTF16PtrFromString (example_platform leaf_only_chain) ''My'' = Inr storeName \<and>
      CertOpenStore (example_platform leaf_only_chain) storeName = Inr winStore \<and>
      UTF16PtrFromString (example_platform leaf_only_chain) (TCPTLSCName (GRPC example_config))
        = Inr commonName \<and>
      CertFindCertificateInStore (example_platform leaf_only_chain) winStore commonName
        = Inr (Some certContext) \<and>
      CertGetCertificateChain (example_platform leaf_only_chain) certContext = Inr certChain \<and>
      chains_loop (example_platform leaf_only_chain) (Chains certChain) 0 ([], NewCertPool)
        = Inr (certChainBytes, certPool) \<and>
      opts (setupTLSFromWindowsCertStore (example_platform leaf_only_chain) example_config)
        = [Creds tlsConfig] \<and>
      (ClientAuth tlsConfig = RequireAndVerifyClientCert \<longleftrightarrow> certChainBytes \<noteq> []) \<and>
      (certChainBytes = [] \<longrightarrow> ClientAuth tlsConfig = NoClientCert))"
proof -
  have ok: "err (setupTLSFromWindowsCertStore (example_platform leaf_only_chain) example_config)
              = None"
    by (simp add: run_leaf_only_chain)
  from ok client_auth_iff_chain_bytes [OF ok] show ?thesis by (rule conjI)
qed

text \<open>
  C3. For every chain context, the loop goes through every chain and every element,
  leaves out exactly the element at chain 0, index 0, and for each other element appends
  its bytes to the Chain Byte Pool, in the order met, and adds the decoded certificate to
  the Certificate Pool: it ends normally exactly when every such element decodes, and
  then with these bytes and these certificates.
\<close>

theorem chains_loop_collects_non_leaf_elements:
  "chains_loop P chs 0 ([], NewCertPool) = Inr (certChainBytes, certPool) \<longleftrightarrow>
     (\<forall>el\<in>set (non_leaf_elements chs). decodes P el) \<and>
     certChainBytes = map element_bytes (non_leaf_elements chs) \<and>
     certPool = element_cert P ` set (non_leaf_elements chs)"
  by (simp add: chains_loop_non_leaf process_elements_Inr_iff NewCertPool_def)

theorem chains_loop_collects_non_leaf_elements_witness:
  "chains_loop (example_platform two_chains) two_chains 0 ([], NewCertPool) =
     Inr ([GoBytes [48, 2], GoBytes [48, 1], GoBytes [48, 3]],
          {\<lparr>Raw = GoBytes [48, 2], IssuerCommonName = ''Example CA''\<rparr>,
           \<lparr>Raw = GoBytes [48, 1], IssuerCommonName = ''Example CA''\<rparr>,
           \<lparr>Raw = GoBytes [48, 3], IssuerCommonName = ''Example CA''\<rparr>})"
proof -
  have dec: "\<forall>el\<in>set (non_leaf_elements two_chains). decodes (example_platform two_chains) el"
    by (simp add: non_leaf_two_chains decodes_def element_bytes_def example_defs)
  have bs: "[GoBytes [48, 2], GoBytes [48, 1], GoBytes [48, 3]] = map element_bytes (non_leaf_elements two_chains)"
    by (simp add: non_leaf_two_chains element_bytes_def example_defs)
  have pool: "{\<lparr>Raw = GoBytes [48, 2], IssuerCommonName = ''Example CA''\<rparr>,
               \<lparr>Raw = GoBytes [48, 1], IssuerCommonName = ''Example CA''\<rparr>,
               \<lparr>Raw = GoBytes [48, 3], IssuerCommonName = ''Example CA''\<rparr>} =
              element_cert (example_platform two_chains) ` set (non_leaf_elements two_chains)"
    by (simp add: non_leaf_two_chains element_cert_def element_bytes_def example_defs)
  show ?thesis
    by (rule iffD2 [OF chains_loop_collects_non_leaf_elements]) (intro conjI dec bs pool)
qed

text \<open>
  C4. When the stages before the loop succeed and some element other than the one at
  chain 0, index 0 does not decode, the function returns no options and the error
  "failed to parse certificate from chain": the failure is not skipped, and neither a
  configuration nor a partly filled Certificate Pool is returned.
\<close>

theorem chain_element_parse_failure_is_fatal:
  assumes "UTF16PtrFromString P ''My'' = Inr storeName"
    and "CertOpenStore P storeName = Inr winStore"
    and "UTF16PtrFromString P (TCPTLSCName (GRPC config)) = Inr commonName"
    and "CertFindCertificateInStore P winStore commonName = Inr (Some certContext)"
    and "ParseCertificate P (StoreBytes certContext) = Inr leafCert"
    and "CertGetCertificateChain P certContext = Inr certChain"
    and "el \<in> set (non_leaf_elements (Chains certChain))"
    and "\<not> decodes P el"
  shows "opts (setupTLSFromWindowsCertStore P config) = [] \<and>
         (\<exists>e. err (setupTLSFromWindowsCertStore P config) = Some (ChainElementParseError e))"
proof -
  from process_elements_fails [OF assms(7,8)]
  obtain e where
    "chains_loop P (Chains certChain) 0 ([], NewCertPool) = Inl (ChainElementParseError e)"
    by (auto simp: chains_loop_non_leaf)
  with assms(1-6) show ?thesis
    by (simp add: setupTLSFromWindowsCertStore_def Let_def frame_defs)
qed

theorem chain_element_parse_failure_is_fatal_witness:
  "\<lparr>CertContext = malformed_context\<rparr> \<in> set (non_leaf_elements broken_chain) \<and>
   \<not> decodes (example_platform broken_chain) \<lparr>CertContext = malformed_context\<rparr> \<and>
   opts (setupTLSFromWindowsCertStore (example_platform broken_chain) example_config) = [] \<and>
   (\<exists>e. err (setupTLSFromWindowsCertStore (example_platform broken_chain) example_config) =
           Some (ChainElementParseError e))"
proof (intro conjI)
  show mem: "\<lparr>CertContext = malformed_context\<rparr> \<in> set (non_leaf_elements broken_chain)"
    by (simp add: non_leaf_broken_chain)
  have mem': "\<lparr>CertContext = malformed_context\<rparr> \<in>
                set (non_leaf_elements (Chains \<lparr>ChainAddr = 500, Chains = broken_chain\<rparr>))"
    using mem by simp
  show bad: "\<not> decodes (example_platform broken_chain) \<lparr>CertContext = malformed_context\<rparr>"
    by (simp add: decodes_def element_bytes_def example_defs)
  have fatal:
    "opts (setupTLSFromWindowsCertStore (example_platform broken_chain) example_config) = [] \<and>
     (\<exists>e. err (setupTLSFromWindowsCertStore (example_platform broken_chain) example_config) =
             Some (ChainElementParseError e))"
    by (rule chain_element_parse_failure_is_fatal
          [where storeName = "utf16 ''My''" and winStore = 1
             and commonName = "utf16 ''svc.example''" and certContext = leaf_context
             and leafCert = "\<lparr>Raw = StoreBytes leaf_context, IssuerCommonName = ''Example CA''\<rparr>"
             and certChain = "\<lparr>ChainAddr = 500, Chains = broken_chain\<rparr>",
           OF _ _ _ _ _ _ mem' bad])
       (simp_all add: example_defs)
  from fatal
  show "opts (setupTLSFromWindowsCertStore (example_platform broken_chain) example_config) = []"
    by (rule conjunct1)
  from fatal
  show "\<exists>e. err (setupTLSFromWindowsCertStore (example_platform broken_chain) example_config) =
             Some (ChainElementParseError e)"
    by (rule conjunct2)
qed

text \<open>
  C5. For every platform and configuration, either every stage succeeds and the function
  returns no error and exactly one option, the configuration assembled from the results
  of the stages (the key, the decoded leaf, the leaf's raw bytes followed by the Chain
  Byte Pool, the Certificate Pool, the client authentication derived from the pool); or
  some stage does not succeed and it returns an error and no option. In particular, when
  the store opens and the lookup fails with an error (no certificate matches the common
  name), it returns "failed to find certificate in store", wrapping that error, and no
  option.
\<close>

theorem all_or_nothing:
  "(((\<exists>storeName winStore commonName certContext leafCert certChain certChainBytes certPool
        store key.
        stages_succeed P config storeName winStore commonName certContext leafCert certChain
          certChainBytes certPool store key \<and>
        opts (setupTLSFromWindowsCertStore P config) =
          [Creds \<lparr>Certificates =
                    [\<lparr>PrivateKey = key, Leaf = leafCert,
                      Certificate = Raw leafCert # certChainBytes\<rparr>],
                  ClientCAs = certPool,
                  ClientAuth = (if certChainBytes = [] then NoClientCert
                                else RequireAndVerifyClientCert)\<rparr>]) \<and>
     err (setupTLSFromWindowsCertStore P config) = None) \<or>
    ((\<nexists>storeName winStore commonName certContext leafCert certChain certChainBytes certPool
        store key.
        stages_succeed P config storeName winStore commonName certContext leafCert certChain
          certChainBytes certPool store key) \<and>
     err (setupTLSFromWindowsCertStore P config) \<noteq> None \<and>
     opts (setupTLSFromWindowsCertStore P config) = [])) \<and>
   (UTF16PtrFromString P ''My'' = Inr storeName \<longrightarrow>
    CertOpenStore P storeName = Inr winStore \<longrightarrow>
    UTF16PtrFromString P (TCPTLSCName (GRPC config)) = Inr commonName \<longrightarrow>
    CertFindCertificateInStore P winStore commonName = Inl e \<longrightarrow>
      err (setupTLSFromWindowsCertStore P config) = Some (CertificateNotFoundError (Some e)) \<and>
      opts (setupTLSFromWindowsCertStore P config) = [])"
proof (rule conjI)
  show "((\<exists>storeName winStore commonName certContext leafCert certChain certChainBytes certPool
        store key.
        stages_succeed P config storeName winStore commonName certContext leafCert certChain
          certChainBytes certPool store key \<and>
        opts (setupTLSFromWindowsCertStore P config) =
          [Creds \<lparr>Certificates =
                    [\<lparr>PrivateKey = key, Leaf = leafCert,
                      Certificate = Raw leafCert # certChainBytes\<rparr>],
                  ClientCAs = certPool,
                  ClientAuth = (if certChainBytes = [] then NoClientCert
                                else RequireAndVerifyClientCert)\<rparr>]) \<and>
     err (setupTLSFromWindowsCertStore P config) = None) \<or>
    ((\<nexists>storeName winStore commonName certContext leafCert certChain certChainBytes certPool
        store key.
        stages_succeed P config storeName winStore commonName certContext leafCert certChain
          certChainBytes certPool store key) \<and>
     err (setupTLSFromWindowsCertStore P config) \<noteq> None \<and>
     opts (setupTLSFromWindowsCertStore P config) = [])"
  proof (cases "err (setupTLSFromWindowsCertStore P config) = None")
    case True
    from setup_success [OF True] True show ?thesis by blast
  next
    case False
    have none: "\<nexists>storeName winStore commonName certContext leafCert certChain certChainBytes
        certPool store key.
        stages_succeed P config storeName winStore commonName certContext leafCert certChain
          certChainBytes certPool store key"
    proof
      assume "\<exists>storeName winStore commonName certContext leafCert certChain certChainBytes
        certPool store key.
        stages_succeed P config storeName winStore commonName certContext leafCert certChain
          certChainBytes certPool store key"
      then obtain storeName winStore commonName certContext leafCert certChain certChainBytes
        certPool store key
        where "stages_succeed P config storeName winStore commonName certContext leafCert
          certChain certChainBytes certPool store key"
        by blast
      from setup_complete [OF this] have "err (setupTLSFromWindowsCertStore P config) = None"
        by simp
      with False show False by simp
    qed
    from setup_two_way [of P config] False
    have "opts (setupTLSFromWindowsCertStore P config) = []" by simp
    with none False show ?thesis by simp
  qed
next
  show "UTF16PtrFromString P ''My'' = Inr storeName \<longrightarrow>
    CertOpenStore P storeName = Inr winStore \<longrightarrow>
    UTF16PtrFromString P (TCPTLSCName (GRPC config)) = Inr commonName \<longrightarrow>
    CertFindCertificateInStore P winStore commonName = Inl e \<longrightarrow>
      err (setupTLSFromWindowsCertStore P config) = Some (CertificateNotFoundError (Some e)) \<and>
      opts (setupTLSFromWindowsCertStore P config) = []"
    by (simp add: setup_no_reference)
qed

theorem all_or_nothing_witness:
  "UTF16PtrFromString no_match_platform ''My'' = Inr (utf16 ''My'') \<and>
   CertOpenStore no_match_platform (utf16 ''My'') = Inr 1 \<and>
   UTF16PtrFromString no_match_platform (TCPTLSCName (GRPC example_config)) =
     Inr (utf16 ''svc.example'') \<and>
   CertFindCertificateInStore no_match_platform 1 (utf16 ''svc.example'') =
     Inl ''Cannot find object or property.'' \<and>
   err (setupTLSFromWindowsCertStore no_match_platform example_config) =
     Some (CertificateNotFoundError (Some ''Cannot find object or property.'')) \<and>
   opts (setupTLSFromWindowsCertStore no_match_platform example_config) = []"
proof -
  have s1: "UTF16PtrFromString no_match_platform ''My'' = Inr (utf16 ''My'')"
    by (simp add: no_match_platform_def example_defs)
  have s2: "CertOpenStore no_match_platform (utf16 ''My'') = Inr 1"
    by (simp add: no_match_platform_def example_defs)
  have s3: "UTF16PtrFromString no_match_platform (TCPTLSCName (GRPC example_config)) =
              Inr (utf16 ''svc.example'')"
    by (simp add: no_match_platform_def example_defs)
  have s4: "CertFindCertificateInStore no_match_platform 1 (utf16 ''svc.example'') =
              Inl ''Cannot find object or property.''"
    by (simp add: no_match_platform_def example_defs)
  note r = all_or_nothing [where P = no_match_platform and config = example_config
             and storeName = "utf16 ''My''" and winStore = 1
             and commonName = "utf16 ''svc.example''"
             and e = "''Cannot find object or property.''",
             THEN conjunct2, rule_format, OF s1 s2 s3 s4]
  from s1 s2 s3 s4 r [THEN conjunct1] r [THEN conjunct2] show ?thesis by (intro conjI)
qed

text \<open>
  C6. On the other platforms the function returns the empty option list and no error,
  whatever the configuration holds.
\<close>

theorem noop_returns_no_options:
  "setupTLSFromWindowsCertStore_noop config = ([], None)"
  by (simp add: setupTLSFromWindowsCertStore_noop_def)

text \<open>
  C7. On every exit, successful or not, the log of the call is: the acquisitions of the
  handles the platform handed out before that exit, in the order of the calls, followed
  by the releases of the same handles in the reverse order. The handles are pairwise
  different, so each one is released exactly once.
\<close>

theorem handles_released_in_reverse_order:
  "distinct (handles_acquired P config) \<and>
   trace (setupTLSFromWindowsCertStore P config) =
     map Acquired (handles_acquired P config) @ map Released (rev (handles_acquired P config))"
  by (auto simp: setupTLSFromWindowsCertStore_def handles_acquired_def Let_def frame_defs
           split: sum.splits option.splits prod.splits)



text \<open>
  C9. On every successful run, if the returned configuration requires and verifies
  client certificates, its client-CA pool is not empty.
\<close>

theorem enforced_client_auth_has_trust_anchors:
  assumes "err (setupTLSFromWindowsCertStore P config) = None"
    and "opts (setupTLSFromWindowsCertStore P config) = [Creds tlsConfig]"
    and "ClientAuth tlsConfig = RequireAndVerifyClientCert"
  shows "ClientCAs tlsConfig \<noteq> {}"
proof -
  from setup_success [OF assms(1), unfolded stages_succeed_def]
  obtain certContext leafCert certChain certChainBytes certPool key
    where "CertGetCertificateChain P certContext = Inr certChain"
    and loop:
      "chains_loop P (Chains certChain) 0 ([], NewCertPool) = Inr (certChainBytes, certPool)"
    and out: "opts (setupTLSFromWindowsCertStore P config) =
        [Creds \<lparr>Certificates =
                  [\<lparr>PrivateKey = key, Leaf = leafCert,
                    Certificate = Raw leafCert # certChainBytes\<rparr>],
                ClientCAs = certPool,
                ClientAuth = (if certChainBytes = [] then NoClientCert
                              else RequireAndVerifyClientCert)\<rparr>]"
    by blast
  from out assms(2,3) have cas: "ClientCAs tlsConfig = certPool" and ne: "certChainBytes \<noteq> []"
    by (auto split: if_splits)
  from loop have "certChainBytes = map element_bytes (non_leaf_elements (Chains certChain))"
    and "certPool = element_cert P ` set (non_leaf_elements (Chains certChain))"
    by (simp_all add: chains_loop_non_leaf process_elements_Inr_iff NewCertPool_def)
  with ne cas show ?thesis by auto
qed

theorem enforced_client_auth_has_trust_anchors_witness:
  "err (setupTLSFromWindowsCertStore (example_platform single_chain) example_config) = None \<and>
   ClientCAs
     \<lparr>Certificates =
        [\<lparr>PrivateKey = 7, Leaf = \<lparr>Raw = StoreBytes leaf_context, IssuerCommonName = ''Example CA''\<rparr>,
          Certificate = [StoreBytes leaf_context, GoBytes [48, 2]]\<rparr>],
      ClientCAs = {\<lparr>Raw = GoBytes [48, 2], IssuerCommonName = ''Example CA''\<rparr>},
      ClientAuth = RequireAndVerifyClientCert\<rparr> \<noteq> {}"
proof -
  have ok: "err (setupTLSFromWindowsCertStore (example_platform single_chain) example_config)
              = None"
    by (simp add: run_single_chain)
  have out: "opts (setupTLSFromWindowsCertStore (example_platform single_chain) example_config) =
    [Creds \<lparr>Certificates =
        [\<lparr>PrivateKey = 7, Leaf = \<lparr>Raw = StoreBytes leaf_context, IssuerCommonName = ''Example CA''\<rparr>,
          Certificate = [StoreBytes leaf_context, GoBytes [48, 2]]\<rparr>],
      ClientCAs = {\<lparr>Raw = GoBytes [48, 2], IssuerCommonName = ''Example CA''\<rparr>},
      ClientAuth = RequireAndVerifyClientCert\<rparr>]"
    by (simp add: run_single_chain)
  have req: "ClientAuth \<lparr>Certificates =
        [\<lparr>PrivateKey = 7, Leaf = \<lparr>Raw = StoreBytes leaf_context, IssuerCommonName = ''Example CA''\<rparr>,
          Certificate = [StoreBytes leaf_context, GoBytes [48, 2]]\<rparr>],
      ClientCAs = {\<lparr>Raw = GoBytes [48, 2], IssuerCommonName = ''Example CA''\<rparr>},
      ClientAuth = RequireAndVerifyClientCert\<rparr> = RequireAndVerifyClientCert"
    by simp
  from ok enforced_client_auth_has_trust_anchors [OF ok out req] show ?thesis by (rule conjI)
qed

text \<open>
  C10. When the lookup returns a nil certificate reference, with an error or with none,
  the function returns "failed to find certificate in store" and no option, having
  acquired and released the store handle only; the result does not depend on the
  certificate decoder, which is not reached. With a nil reference and no error the
  wrapped error is nil.
\<close>

theorem nil_reference_stops_before_leaf_parsing:
  assumes "UTF16PtrFromString P ''My'' = Inr storeName"
    and "CertOpenStore P storeName = Inr winStore"
    and "UTF16PtrFromString P (TCPTLSCName (GRPC config)) = Inr commonName"
    and "\<forall>certContext.
           CertFindCertificateInStore P winStore commonName \<noteq> Inr (Some certContext)"
  shows "opts (setupTLSFromWindowsCertStore P config) = [] \<and>
         (\<exists>e. err (setupTLSFromWindowsCertStore P config) = Some (CertificateNotFoundError e)) \<and>
         (CertFindCertificateInStore P winStore commonName = Inr None \<longrightarrow>
            err (setupTLSFromWindowsCertStore P config) = Some (CertificateNotFoundError None)) \<and>
         trace (setupTLSFromWindowsCertStore P config) =
           [Acquired (StoreHandle winStore), Released (StoreHandle winStore)] \<and>
         setupTLSFromWindowsCertStore (P\<lparr>ParseCertificate := parse\<rparr>) config =
           setupTLSFromWindowsCertStore P config"
proof -
  have "setupTLSFromWindowsCertStore (P\<lparr>ParseCertificate := parse\<rparr>) config =
          setupTLSFromWindowsCertStore P config"
    using assms
    by (subst (1 2) setup_no_reference [where storeName = storeName and winStore = winStore
          and commonName = commonName]) simp_all
  then show ?thesis
    by (simp add: setup_no_reference [OF assms])
qed

theorem nil_reference_stops_before_leaf_parsing_witness:
  "UTF16PtrFromString nil_lookup_platform ''My'' = Inr (utf16 ''My'') \<and>
   CertOpenStore nil_lookup_platform (utf16 ''My'') = Inr 1 \<and>
   UTF16PtrFromString nil_lookup_platform (TCPTLSCName (GRPC example_config)) =
     Inr (utf16 ''svc.example'') \<and>
   (\<forall>certContext. CertFindCertificateInStore nil_lookup_platform 1 (utf16 ''svc.example'')
      \<noteq> Inr (Some certContext)) \<and>
   CertFindCertificateInStore nil_lookup_platform 1 (utf16 ''svc.example'') = Inr None \<and>
   opts (setupTLSFromWindowsCertStore nil_lookup_platform example_config) = [] \<and>
   err (setupTLSFromWindowsCertStore nil_lookup_platform example_config) =
     Some (CertificateNotFoundError None) \<and>
   trace (setupTLSFromWindowsCertStore nil_lookup_platform example_config) =
     [Acquired (StoreHandle 1), Released (StoreHandle 1)]"
proof -
  have s1: "UTF16PtrFromString nil_lookup_platform ''My'' = Inr (utf16 ''My'')"
    by (simp add: nil_lookup_platform_def example_defs)
  have s2: "CertOpenStore nil_lookup_platform (utf16 ''My'') = Inr 1"
    by (simp add: nil_lookup_platform_def example_defs)
  have s3: "UTF16PtrFromString nil_lookup_platform (TCPTLSCName (GRPC example_config)) =
              Inr (utf16 ''svc.example'')"
    by (simp add: nil_lookup_platform_def example_defs)
  have s4: "\<forall>certContext. CertFindCertificateInStore nil_lookup_platform 1
              (utf16 ''svc.example'') \<noteq> Inr (Some certContext)"
    by (simp add: nil_lookup_platform_def example_defs)
  have s5: "CertFindCertificateInStore nil_lookup_platform 1 (utf16 ''svc.example'') = Inr None"
    by (simp add: nil_lookup_platform_def example_defs)
  note r = nil_reference_stops_before_leaf_parsing [OF s1 s2 s3 s4, of example_parse]
  from r s5 have
    "opts (setupTLSFromWindowsCertStore nil_lookup_platform example_config) = []"
    "err (setupTLSFromWindowsCertStore nil_lookup_platform example_config) =
       Some (CertificateNotFoundError None)"
    "trace (setupTLSFromWindowsCertStore nil_lookup_platform example_config) =
       [Acquired (StoreHandle 1), Released (StoreHandle 1)]"
    by simp_all
  with s1 s2 s3 s4 s5 show ?thesis by (intro conjI)
qed

end
